theory Spec2Isabelle
  imports Main
begin

section \<open>Python values and the operations the program applies to them\<close>

text \<open>
  The webhook handler of \<^verbatim>\<open>app.py\<close> works on whatever
  \<^verbatim>\<open>request.get_json\<close> returns: an untyped value built from JSON. The values
  are modelled as a datatype, and each Python operation the handler applies to them
  (truth testing, \<^verbatim>\<open>.get\<close>, subscripting, \<^verbatim>\<open>.strip\<close>) as a function that
  returns the exception Python raises where the value has the wrong shape.

  A text is a list of code points below 256. A float is either \<open>m * 2 ^ e\<close> or one of the
  special values the Python decoder also accepts. An object carries the items of the dict;
  in a list that repeats a key the first pair is the dict's item.
\<close>

datatype pyfloat = Finite int int | Infinity bool | NaN

datatype json =
    JNull
  | JBool bool
  | JInt int
  | JFloat pyfloat
  | JString string
  | JArray "json list"
  | JObject "(string \<times> json) list"

datatype exn =
    AttributeError
  | KeyError
  | TypeError
  | HTTPError
  | ConnectionError
  | JSONDecodeError
  | InvalidJSONError
  | RuntimeError

text \<open>Python's truth test, as used by \<^verbatim>\<open>not x\<close>, \<^verbatim>\<open>x or y\<close> and \<^verbatim>\<open>all\<close>.\<close>

fun truthy :: "json \<Rightarrow> bool" where
  "truthy JNull = False"
| "truthy (JBool b) = b"
| "truthy (JInt i) = (i \<noteq> 0)"
| "truthy (JFloat (Finite m e)) = (m \<noteq> 0)"
| "truthy (JFloat (Infinity sg)) = True"
| "truthy (JFloat NaN) = True"
| "truthy (JString s) = (s \<noteq> [])"
| "truthy (JArray xs) = (xs \<noteq> [])"
| "truthy (JObject kvs) = (kvs \<noteq> [])"

text \<open>The values a strict JSON encoder accepts: no NaN and no infinity anywhere inside.\<close>

fun json_finite :: "json \<Rightarrow> bool" where
  "json_finite JNull = True"
| "json_finite (JBool b) = True"
| "json_finite (JInt i) = True"
| "json_finite (JFloat (Finite m e)) = True"
| "json_finite (JFloat (Infinity sg)) = False"
| "json_finite (JFloat NaN) = False"
| "json_finite (JString s) = True"
| "json_finite (JArray xs) = (\<forall>x \<in> set xs. json_finite x)"
| "json_finite (JObject kvs) = (\<forall>kv \<in> set kvs. json_finite (snd kv))"

text \<open>\<^verbatim>\<open>x.get(k, d)\<close>: only a dict has the method.\<close>

fun dict_get :: "json \<Rightarrow> string \<Rightarrow> json \<Rightarrow> exn + json" where
  "dict_get (JObject kvs) k d = Inr (case map_of kvs k of None \<Rightarrow> d | Some v \<Rightarrow> v)"
| "dict_get JNull k d = Inl AttributeError"
| "dict_get (JBool b) k d = Inl AttributeError"
| "dict_get (JInt i) k d = Inl AttributeError"
| "dict_get (JFloat f) k d = Inl AttributeError"
| "dict_get (JString s) k d = Inl AttributeError"
| "dict_get (JArray xs) k d = Inl AttributeError"

text \<open>\<^verbatim>\<open>x[k]\<close> with a string key: a dict without the key raises KeyError, every
  other value raises TypeError (a list or a string wants an integer index, the rest is
  not subscriptable).\<close>

fun subscript :: "json \<Rightarrow> string \<Rightarrow> exn + json" where
  "subscript (JObject kvs) k = (case map_of kvs k of None \<Rightarrow> Inl KeyError | Some v \<Rightarrow> Inr v)"
| "subscript JNull k = Inl TypeError"
| "subscript (JBool b) k = Inl TypeError"
| "subscript (JInt i) k = Inl TypeError"
| "subscript (JFloat f) k = Inl TypeError"
| "subscript (JString s) k = Inl TypeError"
| "subscript (JArray xs) k = Inl TypeError"

text \<open>The white space \<^verbatim>\<open>str.strip()\<close> removes, among the code points below 256:
  TAB to CR, FS to US, the space, NEL and the no-break space.\<close>

definition is_space :: "char \<Rightarrow> bool" where
  "is_space c =
     (let n = (of_char c :: nat)
      in (9 \<le> n \<and> n \<le> 13) \<or> (28 \<le> n \<and> n \<le> 32) \<or> n = 133 \<or> n = 160)"

definition strip :: "string \<Rightarrow> string" where
  "strip s = rev (dropWhile is_space (rev (dropWhile is_space s)))"

definition startswith :: "string \<Rightarrow> string \<Rightarrow> bool" where
  "startswith s p = (take (length p) s = p)"

text \<open>\<^verbatim>\<open>text.strip()\<close> on an untyped value: only a string has the method.\<close>

fun str_strip :: "json \<Rightarrow> exn + string" where
  "str_strip (JString s) = Inr (strip s)"
| "str_strip JNull = Inl AttributeError"
| "str_strip (JBool b) = Inl AttributeError"
| "str_strip (JInt i) = Inl AttributeError"
| "str_strip (JFloat f) = Inl AttributeError"
| "str_strip (JArray xs) = Inl AttributeError"
| "str_strip (JObject kvs) = Inl AttributeError"


section \<open>Configuration\<close>

text \<open>
  Lines 9 to 15 of \<^verbatim>\<open>app.py\<close> run when the module is loaded. \<^verbatim>\<open>os.environ\<close> is a
  map from names to strings and \<^verbatim>\<open>os.environ.get\<close> is its lookup; \<^verbatim>\<open>all\<close> tests
  each value for truth, and neither \<^verbatim>\<open>None\<close> nor the empty string passes. The
  values are used only once the test has passed, when all four are there.
\<close>

record config =
  TELEGRAM_BOT_TOKEN :: string
  TRELLO_KEY :: string
  TRELLO_TOKEN :: string
  TRELLO_CHECKLIST_ID :: string

definition truthy_env :: "string option \<Rightarrow> bool" where
  "truthy_env v = (case v of None \<Rightarrow> False | Some s \<Rightarrow> s \<noteq> [])"

definition load_config :: "(string \<rightharpoonup> string) \<Rightarrow> exn + config" where
  "load_config environ =
     (let bot_token = environ ''TELEGRAM_BOT_TOKEN'';
          trello_key = environ ''TRELLO_KEY'';
          trello_token = environ ''TRELLO_TOKEN'';
          checklist_id = environ ''TRELLO_CHECKLIST_ID''
      in if \<not> list_all truthy_env [bot_token, trello_key, trello_token, checklist_id]
         then Inl RuntimeError
         else Inr \<lparr>TELEGRAM_BOT_TOKEN = the bot_token, TRELLO_KEY = the trello_key,
                   TRELLO_TOKEN = the trello_token, TRELLO_CHECKLIST_ID = the checklist_id\<rparr>)"

definition TELEGRAM_API_BASE :: "config \<Rightarrow> string" where
  "TELEGRAM_API_BASE cfg = ''https://api.telegram.org/bot'' @ TELEGRAM_BOT_TOKEN cfg"

definition TRELLO_API_BASE :: string where
  "TRELLO_API_BASE = ''https://api.trello.com/1''"


section \<open>Outbound HTTP, the log and the state of one request\<close>

text \<open>
  The two services are reached through \<^verbatim>\<open>requests.post\<close>. A call to the board service
  carries a URL and query parameters, a call to the chat service a URL and a JSON payload.
  What the network answers is not the program's to decide: it is a parameter, a function of
  the calls made so far and of the call, that either raises (the transport failed) or
  returns a response. Of a response the program reads the status code
  (\<^verbatim>\<open>raise_for_status\<close>) and the body decoded as JSON (\<^verbatim>\<open>resp.json()\<close>, which
  raises when the body does not decode).

  Before anything is sent the library prepares the request. Query parameters are strings
  and always go through; a payload given as \<^verbatim>\<open>json=\<close> is encoded strictly, and one that
  holds a NaN or an infinity makes \<^verbatim>\<open>requests.post\<close> raise InvalidJSONError with no
  request made.
\<close>

datatype call =
    TrelloPost string "(string \<times> string) list"
  | TelegramPost string "(string \<times> json) list"

record response =
  status_code :: nat
  json_body :: "json option"

type_synonym network = "call list \<Rightarrow> call \<Rightarrow> exn + response"

datatype log_level = INFO | ERROR

record state =
  calls :: "call list"
  logs :: "(log_level \<times> string) list"

definition serialisable :: "call \<Rightarrow> bool" where
  "serialisable c =
     (case c of
        TrelloPost url params \<Rightarrow> True
      | TelegramPost url payload \<Rightarrow> (\<forall>kv \<in> set payload. json_finite (snd kv)))"

definition requests_post :: "network \<Rightarrow> call \<Rightarrow> state \<Rightarrow> (exn + response) \<times> state" where
  "requests_post net c s =
     (if serialisable c then (net (calls s) c, s\<lparr>calls := calls s @ [c]\<rparr>)
      else (Inl InvalidJSONError, s))"

definition raise_for_status :: "response \<Rightarrow> exn + unit" where
  "raise_for_status resp =
     (if 400 \<le> status_code resp \<and> status_code resp < 600 then Inl HTTPError else Inr ())"

definition response_json :: "response \<Rightarrow> exn + json" where
  "response_json resp = (case json_body resp of None \<Rightarrow> Inl JSONDecodeError | Some v \<Rightarrow> Inr v)"

text \<open>A log record keeps the level and the format string of the logging call.\<close>

definition logger :: "log_level \<Rightarrow> string \<Rightarrow> state \<Rightarrow> state" where
  "logger lvl fmt s = s\<lparr>logs := logs s @ [(lvl, fmt)]\<rparr>"


section \<open>The two clients\<close>

definition trello_call :: "config \<Rightarrow> string \<Rightarrow> call" where
  "trello_call cfg task_text =
     TrelloPost (TRELLO_API_BASE @ ''/checklists/'' @ TRELLO_CHECKLIST_ID cfg @ ''/checkItems'')
       [(''key'', TRELLO_KEY cfg), (''token'', TRELLO_TOKEN cfg),
        (''name'', task_text), (''pos'', ''top'')]"

definition add_checkitem_to_trello ::
  "config \<Rightarrow> network \<Rightarrow> string \<Rightarrow> state \<Rightarrow> (exn + json) \<times> state" where
  "add_checkitem_to_trello cfg net task_text s =
     (case requests_post net (trello_call cfg task_text) s of
        (Inl e, s1) \<Rightarrow> (Inl e, s1)
      | (Inr resp, s1) \<Rightarrow>
          (case raise_for_status resp of
             Inl e \<Rightarrow> (Inl e, logger ERROR ''Error from Trello API: %s - response: %s'' s1)
           | Inr u \<Rightarrow> (response_json resp, s1)))"

definition telegram_call :: "config \<Rightarrow> json \<Rightarrow> string \<Rightarrow> call" where
  "telegram_call cfg chat_id text =
     TelegramPost (TELEGRAM_API_BASE cfg @ ''/sendMessage'')
       [(''chat_id'', chat_id), (''text'', JString text)]"

definition send_telegram_message ::
  "config \<Rightarrow> network \<Rightarrow> json \<Rightarrow> string \<Rightarrow> state \<Rightarrow> (exn + unit) \<times> state" where
  "send_telegram_message cfg net chat_id text s =
     (case requests_post net (telegram_call cfg chat_id text) s of
        (Inl e, s1) \<Rightarrow> (Inl e, s1)
      | (Inr resp, s1) \<Rightarrow>
          (case raise_for_status resp of
             Inl e \<Rightarrow> (Inr (), logger ERROR ''Error sending Telegram message: %s - response: %s'' s1)
           | Inr u \<Rightarrow> (Inr (), s1)))"


section \<open>The webhook handler\<close>

text \<open>The route is registered for GET and POST, and the framework hands the view a HEAD
  request as well wherever GET is allowed.\<close>

datatype http_method = GET | HEAD | POST

text \<open>Of the request the handler reads the method and the body;
  \<^verbatim>\<open>get_json(force=True, silent=True)\<close> gives \<^verbatim>\<open>None\<close> for a body that does not
  parse, and the parsed value otherwise (which is \<^verbatim>\<open>None\<close> again for the body
  \<^verbatim>\<open>null\<close>).\<close>

record request =
  request_method :: http_method
  parsed_body :: "json option"

definition get_json :: "request \<Rightarrow> json" where
  "get_json req = (case parsed_body req of None \<Rightarrow> JNull | Some v \<Rightarrow> v)"

datatype reply =
    TextReply string nat
  | JsonReply "(string \<times> json) list" nat

definition ok_reply :: reply where
  "ok_reply = JsonReply [(''ok'', JBool True)] 200"

definition no_payload_reply :: reply where
  "no_payload_reply =
     JsonReply [(''ok'', JBool False), (''description'', JString ''No update payload'')] 400"

definition plain_text_notice :: string where
  "plain_text_notice = ''Please send plain text tasks only for now.''"

definition greeting :: string where
  "greeting = ''Hey! Send me any message and I'll add it as a checklist item in Trello.''"

definition failure_notice :: string where
  "failure_notice = ''Oops, I couldn't add that to Trello. Check configuration/logs.''"

text \<open>An f-string field prints a string as it is; what \<^verbatim>\<open>str\<close> makes of any other
  value is left to a parameter.\<close>

definition format_value :: "(json \<Rightarrow> string) \<Rightarrow> json \<Rightarrow> string" where
  "format_value py_str v = (case v of JString s \<Rightarrow> s | _ \<Rightarrow> py_str v)"

text \<open>Line 75: \<^verbatim>\<open>update.get("message") or update.get("edited_message")\<close>.\<close>

definition select_message :: "json \<Rightarrow> exn + json" where
  "select_message update =
     (case dict_get update ''message'' JNull of
        Inl e \<Rightarrow> Inl e
      | Inr m \<Rightarrow> if truthy m then Inr m else dict_get update ''edited_message'' JNull)"

text \<open>Line 80: \<^verbatim>\<open>message["chat"]["id"]\<close>.\<close>

definition chat_id_of :: "json \<Rightarrow> exn + json" where
  "chat_id_of message =
     (case subscript message ''chat'' of
        Inl e \<Rightarrow> Inl e
      | Inr chat \<Rightarrow> subscript chat ''id'')"

text \<open>Replying through the chat service and then acknowledging: an exception of the
  send leaves the handler.\<close>

definition reply_and_ack ::
  "config \<Rightarrow> network \<Rightarrow> json \<Rightarrow> string \<Rightarrow> state \<Rightarrow> (exn + reply) \<times> state" where
  "reply_and_ack cfg net chat_id text s =
     (case send_telegram_message cfg net chat_id text s of
        (Inl e, s1) \<Rightarrow> (Inl e, s1)
      | (Inr u, s1) \<Rightarrow> (Inr ok_reply, s1))"

text \<open>The body of the \<^verbatim>\<open>try\<close> of lines 100 to 103.\<close>

definition try_add ::
  "config \<Rightarrow> network \<Rightarrow> (json \<Rightarrow> string) \<Rightarrow> json \<Rightarrow> string \<Rightarrow> state \<Rightarrow> (exn + unit) \<times> state" where
  "try_add cfg net py_str chat_id task_text s =
     (case add_checkitem_to_trello cfg net task_text s of
        (Inl e, s1) \<Rightarrow> (Inl e, s1)
      | (Inr trello_response, s1) \<Rightarrow>
          (case dict_get trello_response ''name'' (JString task_text) of
             Inl e \<Rightarrow> (Inl e, s1)
           | Inr item_name \<Rightarrow>
               send_telegram_message cfg net chat_id
                 (''Added to Trello checklist: '' @ format_value py_str item_name) s1))"

text \<open>Lines 100 to 111: every exception of the \<^verbatim>\<open>try\<close> is caught, logged and
  answered with the failure notice.\<close>

definition add_task ::
  "config \<Rightarrow> network \<Rightarrow> (json \<Rightarrow> string) \<Rightarrow> json \<Rightarrow> string \<Rightarrow> state \<Rightarrow> (exn + reply) \<times> state" where
  "add_task cfg net py_str chat_id task_text s =
     (case try_add cfg net py_str chat_id task_text s of
        (Inr u, s1) \<Rightarrow> (Inr ok_reply, s1)
      | (Inl e, s1) \<Rightarrow>
          reply_and_ack cfg net chat_id failure_notice
            (logger ERROR ''Failed to add checklist item'' s1))"

definition telegram_webhook ::
  "config \<Rightarrow> network \<Rightarrow> (json \<Rightarrow> string) \<Rightarrow> request \<Rightarrow> state \<Rightarrow> (exn + reply) \<times> state" where
  "telegram_webhook cfg net py_str req s =
     (if request_method req = GET then (Inr (TextReply ''Telegram webhook endpoint is live'' 200), s)
      else
        (let update = get_json req;
             s1 = logger INFO ''Received update: %s'' s
         in if \<not> truthy update then (Inr no_payload_reply, s1)
            else
              (case select_message update of
                 Inl e \<Rightarrow> (Inl e, s1)
               | Inr message \<Rightarrow>
                   (if \<not> truthy message then (Inr ok_reply, s1)
                    else
                      (case chat_id_of message of
                         Inl e \<Rightarrow> (Inl e, s1)
                       | Inr chat_id \<Rightarrow>
                           (case dict_get message ''text'' JNull of
                              Inl e \<Rightarrow> (Inl e, s1)
                            | Inr text \<Rightarrow>
                                (if \<not> truthy text
                                 then reply_and_ack cfg net chat_id plain_text_notice s1
                                 else
                                   (case str_strip text of
                                      Inl e \<Rightarrow> (Inl e, s1)
                                    | Inr text' \<Rightarrow>
                                        (if startswith text' ''/start''
                                         then reply_and_ack cfg net chat_id greeting s1
                                         else add_task cfg net py_str chat_id text' s1)))))))))"

text \<open>A request starts with no outbound call made and nothing logged.\<close>

definition s0 :: state where
  "s0 = \<lparr>calls = [], logs = []\<rparr>"

definition post_request :: "json \<Rightarrow> request" where
  "post_request update = \<lparr>request_method = POST, parsed_body = Some update\<rparr>"


section \<open>What is assumed of the chat service\<close>

text \<open>The chat service answers: every request to it comes back with a response, of
  whatever status, rather than failing in transport.\<close>

definition chat_responds :: "network \<Rightarrow> bool" where
  "chat_responds net = (\<forall>h u p. \<exists>r. net h (TelegramPost u p) = Inr r)"


section \<open>Concrete configurations, networks and updates\<close>

definition environ_ok :: "string \<rightharpoonup> string" where
  "environ_ok = [''TELEGRAM_BOT_TOKEN'' \<mapsto> ''123:abc'', ''TRELLO_KEY'' \<mapsto> ''k'',
                 ''TRELLO_TOKEN'' \<mapsto> ''t'', ''TRELLO_CHECKLIST_ID'' \<mapsto> ''c1'']"

definition example_cfg :: config where
  "example_cfg = \<lparr>TELEGRAM_BOT_TOKEN = ''123:abc'', TRELLO_KEY = ''k'', TRELLO_TOKEN = ''t'',
                   TRELLO_CHECKLIST_ID = ''c1''\<rparr>"

text \<open>Both services up, the board echoing the name it was given.\<close>

definition net_echo :: network where
  "net_echo h c =
     (case c of
        TrelloPost u params \<Rightarrow>
          Inr \<lparr>status_code = 200,
               json_body = Some (JObject [(''id'', JString ''i1''),
                 (''name'', JString (case map_of params ''name'' of None \<Rightarrow> [] | Some n \<Rightarrow> n))])\<rparr>
      | TelegramPost u p \<Rightarrow>
          Inr \<lparr>status_code = 200, json_body = Some (JObject [(''ok'', JBool True)])\<rparr>)"

text \<open>The board refusing the credentials.\<close>

definition net_board_rejects :: network where
  "net_board_rejects h c =
     (case c of
        TrelloPost u params \<Rightarrow> Inr \<lparr>status_code = 401, json_body = None\<rparr>
      | TelegramPost u p \<Rightarrow>
          Inr \<lparr>status_code = 200, json_body = Some (JObject [(''ok'', JBool True)])\<rparr>)"

text \<open>The chat service refusing the message with a status.\<close>

definition net_chat_forbidden :: network where
  "net_chat_forbidden h c =
     (case c of
        TrelloPost u params \<Rightarrow> Inr \<lparr>status_code = 200, json_body = Some (JObject [])\<rparr>
      | TelegramPost u p \<Rightarrow> Inr \<lparr>status_code = 403, json_body = None\<rparr>)"

text \<open>The board up and echoing, the connection to the chat service failing.\<close>

definition net_chat_down :: network where
  "net_chat_down h c =
     (case c of
        TrelloPost u params \<Rightarrow>
          Inr \<lparr>status_code = 200,
               json_body = Some (JObject [(''id'', JString ''i1''),
                 (''name'', JString (case map_of params ''name'' of None \<Rightarrow> [] | Some n \<Rightarrow> n))])\<rparr>
      | TelegramPost u p \<Rightarrow> Inl ConnectionError)"

text \<open>No connection at all.\<close>

definition net_down :: network where
  "net_down h c = Inl ConnectionError"

text \<open>A printer for the values that are not strings; the examples print strings only.\<close>

fun example_str :: "json \<Rightarrow> string" where
  "example_str JNull = ''None''"
| "example_str (JBool b) = (if b then ''True'' else ''False'')"
| "example_str v = []"

text \<open>An update whose message comes from chat 42 and has the given further fields.\<close>

definition message_fields :: "(string \<times> json) list \<Rightarrow> (string \<times> json) list" where
  "message_fields kvs = (''message_id'', JInt 7) # (''chat'', JObject [(''id'', JInt 42)]) # kvs"

definition message_update :: "(string \<times> json) list \<Rightarrow> json" where
  "message_update kvs =
     JObject [(''update_id'', JInt 1), (''message'', JObject (message_fields kvs))]"

text \<open>The same from whatever chat.\<close>

definition chat_fields :: "json \<Rightarrow> (string \<times> json) list \<Rightarrow> (string \<times> json) list" where
  "chat_fields cid kvs =
     (''message_id'', JInt 8) # (''chat'', JObject [(''id'', cid), (''type'', JString ''private'')]) # kvs"

definition chat_update :: "json \<Rightarrow> (string \<times> json) list \<Rightarrow> json" where
  "chat_update cid kvs =
     JObject [(''update_id'', JInt 2), (''message'', JObject (chat_fields cid kvs))]"


section \<open>Startup\<close>

text \<open>
  C8. Loading the module reads the four settings from the environment; it raises
  (the process does not start) if and only if one of them is missing or empty, and with
  all four present and non-empty it goes on with exactly the values read.
\<close>

theorem config_fail_fast:
  "((\<exists>e. load_config environ = Inl e) \<longleftrightarrow>
      (\<exists>k \<in> set [''TELEGRAM_BOT_TOKEN'', ''TRELLO_KEY'', ''TRELLO_TOKEN'', ''TRELLO_CHECKLIST_ID''].
         environ k = None \<or> environ k = Some []))
   \<and> ((\<forall>k \<in> set [''TELEGRAM_BOT_TOKEN'', ''TRELLO_KEY'', ''TRELLO_TOKEN'', ''TRELLO_CHECKLIST_ID''].
         \<exists>v. environ k = Some v \<and> v \<noteq> []) \<longrightarrow>
       load_config environ =
         Inr \<lparr>TELEGRAM_BOT_TOKEN = the (environ ''TELEGRAM_BOT_TOKEN''),
              TRELLO_KEY = the (environ ''TRELLO_KEY''),
              TRELLO_TOKEN = the (environ ''TRELLO_TOKEN''),
              TRELLO_CHECKLIST_ID = the (environ ''TRELLO_CHECKLIST_ID'')\<rparr>)"
  by (auto simp: load_config_def truthy_env_def Let_def split: option.splits)

theorem config_fail_fast_witness:
  "load_config environ_ok =
     Inr \<lparr>TELEGRAM_BOT_TOKEN = ''123:abc'', TRELLO_KEY = ''k'', TRELLO_TOKEN = ''t'',
          TRELLO_CHECKLIST_ID = ''c1''\<rparr>
   \<and> (\<exists>e. load_config (environ_ok(''TRELLO_KEY'' \<mapsto> [])) = Inl e)
   \<and> (\<exists>e. load_config (environ_ok(''TRELLO_TOKEN'' := None)) = Inl e)"
  using config_fail_fast [of environ_ok]
        config_fail_fast [of "environ_ok(''TRELLO_KEY'' \<mapsto> [])"]
        config_fail_fast [of "environ_ok(''TRELLO_TOKEN'' := None)"]
  by (simp add: environ_ok_def)


section \<open>Facts about the Python operations\<close>

lemma falsy_values:
  "\<not> truthy v \<longleftrightarrow>
     v = JNull \<or> v = JBool False \<or> v = JInt 0 \<or> (\<exists>e. v = JFloat (Finite 0 e))
     \<or> v = JString [] \<or> v = JArray [] \<or> v = JObject []"
proof (cases v)
  case (JFloat f)
  then show ?thesis by (cases f) auto
qed auto

text \<open>Line 80 yields a chat id exactly for an object whose \<open>chat\<close> is an object with an
  \<open>id\<close>.\<close>

lemma chat_id_of_Inr:
  "chat_id_of msg = Inr cid \<longleftrightarrow>
     (\<exists>m c. msg = JObject m \<and> map_of m ''chat'' = Some (JObject c) \<and> map_of c ''id'' = Some cid)"
proof (cases msg)
  case (JObject m)
  show ?thesis
  proof (cases "map_of m ''chat''")
    case None
    with JObject show ?thesis by (simp add: chat_id_of_def)
  next
    case (Some chat)
    with JObject show ?thesis
      by (cases chat) (auto simp: chat_id_of_def split: option.splits)
  qed
qed (simp_all add: chat_id_of_def)

lemma chat_id_of_object:
  "map_of m ''chat'' = Some (JObject c) \<Longrightarrow> map_of c ''id'' = Some cid \<Longrightarrow>
   chat_id_of (JObject m) = Inr cid"
  by (simp add: chat_id_of_Inr)

text \<open>A truthy message can only have been selected from a truthy update.\<close>

lemma select_message_truthy:
  assumes "select_message upd = Inr msg" and "truthy msg"
  shows "truthy upd"
proof (cases upd)
  case (JObject u)
  show ?thesis
  proof (cases u)
    case Nil
    with JObject assms show ?thesis by (simp add: select_message_def)
  next
    case (Cons a u')
    with JObject show ?thesis by simp
  qed
qed (use assms in \<open>simp_all add: select_message_def\<close>)

lemma strip_start: "strip ''  /start now '' = ''/start now''"
  by (simp add: strip_def is_space_def)

lemma strip_blank: "strip ''   '' = []"
  by (simp add: strip_def is_space_def)


section \<open>Facts about the clients\<close>

lemma calls_logger [simp]: "calls (logger lvl fmt s) = calls s"
  by (simp add: logger_def)

lemma logs_logger [simp]: "logs (logger lvl fmt s) = logs s @ [(lvl, fmt)]"
  by (simp add: logger_def)

lemma calls_s0 [simp]: "calls s0 = []"
  by (simp add: s0_def)

lemma serialisable_trello [simp]: "serialisable (trello_call cfg t)"
  by (simp add: serialisable_def trello_call_def)

lemma serialisable_telegram [simp]: "serialisable (telegram_call cfg cid t) = json_finite cid"
  by (simp add: serialisable_def telegram_call_def)

text \<open>A send makes its one request whatever comes of it, unless the chat id cannot be
  encoded.\<close>

lemma send_calls [simp]:
  "calls (snd (send_telegram_message cfg net cid t s)) =
     (if json_finite cid then calls s @ [telegram_call cfg cid t] else calls s)"
  by (simp add: send_telegram_message_def requests_post_def split: sum.splits)

lemma send_responds:
  assumes "chat_responds net" and "json_finite cid"
  shows "fst (send_telegram_message cfg net cid t s) = Inr ()"
proof -
  from assms(1) obtain r where "net (calls s) (telegram_call cfg cid t) = Inr r"
    unfolding chat_responds_def telegram_call_def by blast
  with assms(2) show ?thesis
    by (simp add: send_telegram_message_def requests_post_def split: sum.splits)
qed

lemma reply_and_ack_calls [simp]:
  "calls (snd (reply_and_ack cfg net cid t s)) =
     (if json_finite cid then calls s @ [telegram_call cfg cid t] else calls s)"
proof (cases "send_telegram_message cfg net cid t s")
  case (Pair r s1)
  with send_calls [of cfg net cid t s] show ?thesis
    by (cases r) (simp_all add: reply_and_ack_def)
qed

lemma reply_and_ack_responds:
  assumes "chat_responds net" and "json_finite cid"
  shows "fst (reply_and_ack cfg net cid t s) = Inr ok_reply"
proof (cases "send_telegram_message cfg net cid t s")
  case (Pair r s1)
  with send_responds [OF assms, of cfg t s] show ?thesis
    by (simp add: reply_and_ack_def)
qed

lemma reply_and_ack_Inr:
  "fst (reply_and_ack cfg net cid t s) = Inr r \<Longrightarrow> r = ok_reply"
  by (cases "send_telegram_message cfg net cid t s")
     (auto simp: reply_and_ack_def split: sum.splits)

lemma add_checkitem_calls [simp]:
  "calls (snd (add_checkitem_to_trello cfg net t s)) = calls s @ [trello_call cfg t]"
  by (simp add: add_checkitem_to_trello_def requests_post_def split: sum.splits)

lemma add_checkitem_fst:
  "fst (add_checkitem_to_trello cfg net t s) =
     (case net (calls s) (trello_call cfg t) of
        Inl e \<Rightarrow> Inl e
      | Inr resp \<Rightarrow>
          if 400 \<le> status_code resp \<and> status_code resp < 600 then Inl HTTPError
          else response_json resp)"
  by (simp add: add_checkitem_to_trello_def requests_post_def raise_for_status_def
           split: sum.splits)

lemma net_echo_responds: "chat_responds net_echo"
  by (simp add: chat_responds_def net_echo_def)

lemma net_board_rejects_responds: "chat_responds net_board_rejects"
  by (simp add: chat_responds_def net_board_rejects_def)

lemma example_cfg_simps [simp]:
  "TELEGRAM_API_BASE example_cfg = ''https://api.telegram.org/bot123:abc''"
  "TRELLO_CHECKLIST_ID example_cfg = ''c1''"
  "TRELLO_KEY example_cfg = ''k''"
  "TRELLO_TOKEN example_cfg = ''t''"
  by (simp_all add: TELEGRAM_API_BASE_def example_cfg_def)


section \<open>Facts about the task path\<close>

text \<open>The body of the \<^verbatim>\<open>try\<close> either stops before the confirmation, with the board
  call made, or ends with the send of the confirmation.\<close>

lemma try_add_cases:
  obtains (stopped) e where "fst (try_add cfg net py_str cid t s) = Inl e"
      and "calls (snd (try_add cfg net py_str cid t s)) = calls s @ [trello_call cfg t]"
      and "fst (add_checkitem_to_trello cfg net t s) = Inl e
           \<or> (\<exists>v. fst (add_checkitem_to_trello cfg net t s) = Inr v
                  \<and> dict_get v ''name'' (JString t) = Inl e)"
  | (sent) v item_name where "fst (add_checkitem_to_trello cfg net t s) = Inr v"
      and "dict_get v ''name'' (JString t) = Inr item_name"
      and "try_add cfg net py_str cid t s =
             send_telegram_message cfg net cid
               (''Added to Trello checklist: '' @ format_value py_str item_name)
               (snd (add_checkitem_to_trello cfg net t s))"
proof (cases "add_checkitem_to_trello cfg net t s")
  case (Pair r s1)
  have c: "calls s1 = calls s @ [trello_call cfg t]"
    using add_checkitem_calls [of cfg net t s] Pair by simp
  show ?thesis
  proof (cases r)
    case (Inl e)
    with Pair c show ?thesis
      by (intro stopped [of e]) (simp_all add: try_add_def)
  next
    case (Inr v)
    show ?thesis
    proof (cases "dict_get v ''name'' (JString t)")
      case (Inl e)
      with Pair Inr c show ?thesis
        by (intro stopped [of e]) (simp_all add: try_add_def)
    next
      case inr: (Inr item_name)
      with Pair Inr show ?thesis
        by (intro sent [of v item_name]) (simp_all add: try_add_def)
    qed
  qed
qed

lemma add_task_unfold:
  "add_task cfg net py_str cid t s =
     (case fst (try_add cfg net py_str cid t s) of
        Inr u \<Rightarrow> (Inr ok_reply, snd (try_add cfg net py_str cid t s))
      | Inl e \<Rightarrow>
          reply_and_ack cfg net cid failure_notice
            (logger ERROR ''Failed to add checklist item'' (snd (try_add cfg net py_str cid t s))))"
  by (cases "try_add cfg net py_str cid t s") (simp add: add_task_def split: sum.splits)

lemma add_task_Inr:
  "fst (add_task cfg net py_str cid t s) = Inr r \<Longrightarrow> r = ok_reply"
  by (auto simp: add_task_unfold split: sum.splits dest: reply_and_ack_Inr)

text \<open>When the board client raises, the failure notice is the one message sent.\<close>

lemma add_task_stopped:
  assumes "fst (add_checkitem_to_trello cfg net t s) = Inl e" and "json_finite cid"
  shows "calls (snd (add_task cfg net py_str cid t s)) =
           calls s @ [trello_call cfg t, telegram_call cfg cid failure_notice]"
    and "chat_responds net \<Longrightarrow> fst (add_task cfg net py_str cid t s) = Inr ok_reply"
proof -
  have t: "fst (try_add cfg net py_str cid t s) = Inl e
           \<and> calls (snd (try_add cfg net py_str cid t s)) = calls s @ [trello_call cfg t]"
    using assms(1) add_checkitem_calls [of cfg net t s]
    by (cases "add_checkitem_to_trello cfg net t s") (simp add: try_add_def)
  with assms(2) show "calls (snd (add_task cfg net py_str cid t s)) =
           calls s @ [trello_call cfg t, telegram_call cfg cid failure_notice]"
    by (simp add: add_task_unfold)
  from t assms(2)
  show "chat_responds net \<Longrightarrow> fst (add_task cfg net py_str cid t s) = Inr ok_reply"
    by (simp add: add_task_unfold reply_and_ack_responds)
qed

text \<open>With the chat service answering, the task path makes the board call and one chat
  call and acknowledges; the chat call is the confirmation when the board answered with a
  JSON object under a status that is no error.\<close>

lemma add_task_responds:
  assumes "chat_responds net" and "json_finite cid"
  shows "fst (add_task cfg net py_str cid t s) = Inr ok_reply
     \<and> (\<exists>txt. calls (snd (add_task cfg net py_str cid t s)) =
               calls s @ [trello_call cfg t, telegram_call cfg cid txt]
            \<and> (\<forall>r item. net (calls s) (trello_call cfg t) = Inr r
                   \<and> \<not> (400 \<le> status_code r \<and> status_code r < 600)
                   \<and> json_body r = Some (JObject item) \<longrightarrow>
                 txt = ''Added to Trello checklist: '' @
                   (case map_of item ''name'' of None \<Rightarrow> t | Some v \<Rightarrow> format_value py_str v)))"
proof (cases rule: try_add_cases [of cfg net py_str cid t s])
  case (stopped e)
  have ok: "fst (add_task cfg net py_str cid t s) = Inr ok_reply"
    using stopped(1) assms by (simp add: add_task_unfold reply_and_ack_responds)
  have cs: "calls (snd (add_task cfg net py_str cid t s)) =
          calls s @ [trello_call cfg t, telegram_call cfg cid failure_notice]"
    using stopped(1,2) assms(2) by (simp add: add_task_unfold)
  have no: "\<not> (net (calls s) (trello_call cfg t) = Inr r
                   \<and> \<not> (400 \<le> status_code r \<and> status_code r < 600)
                   \<and> json_body r = Some (JObject item))" for r item
    using stopped(3) by (auto simp: add_checkitem_fst response_json_def split: if_splits)
  from ok cs no show ?thesis by blast
next
  case (sent v item_name)
  let ?txt = "''Added to Trello checklist: '' @ format_value py_str item_name"
  have f: "fst (try_add cfg net py_str cid t s) = Inr ()"
    using sent(3) send_responds [OF assms] by simp
  have c: "calls (snd (try_add cfg net py_str cid t s)) =
          calls s @ [trello_call cfg t, telegram_call cfg cid ?txt]"
    using sent(3) assms(2) by simp
  have ok: "fst (add_task cfg net py_str cid t s) = Inr ok_reply"
    using f by (simp add: add_task_unfold)
  have cs: "calls (snd (add_task cfg net py_str cid t s)) =
          calls s @ [trello_call cfg t, telegram_call cfg cid ?txt]"
    using f c by (simp add: add_task_unfold)
  have nm: "?txt = ''Added to Trello checklist: '' @
                   (case map_of item ''name'' of None \<Rightarrow> t | Some v \<Rightarrow> format_value py_str v)"
    if "net (calls s) (trello_call cfg t) = Inr r"
      and "\<not> (400 \<le> status_code r \<and> status_code r < 600)"
      and "json_body r = Some (JObject item)" for r item
  proof -
    from that sent(1) have "v = JObject item"
      by (auto simp: add_checkitem_fst response_json_def split: if_splits)
    with sent(2) show ?thesis
      by (auto simp: format_value_def split: option.splits)
  qed
  from ok cs nm show ?thesis by blast
qed


section \<open>Facts about the handler\<close>

text \<open>Every reply the handler returns is one of its three.\<close>

lemma webhook_Inr_cases:
  assumes "fst (telegram_webhook cfg net py_str req s) = Inr r"
  shows "(request_method req = GET \<and> r = TextReply ''Telegram webhook endpoint is live'' 200)
       \<or> (request_method req \<noteq> GET \<and> \<not> truthy (get_json req) \<and> r = no_payload_reply)
       \<or> (request_method req \<noteq> GET \<and> truthy (get_json req) \<and> r = ok_reply)"
proof (cases "request_method req = GET")
  case True
  with assms show ?thesis by (simp add: telegram_webhook_def)
next
  case False
  show ?thesis
  proof (cases "truthy (get_json req)")
    case f: False
    with False assms show ?thesis by (simp add: telegram_webhook_def Let_def)
  next
    case True
    with False assms have "r = ok_reply"
      by (auto simp: telegram_webhook_def Let_def
               split: sum.splits if_splits dest: reply_and_ack_Inr add_task_Inr)
    with False True show ?thesis by simp
  qed
qed

text \<open>An update whose selected message has a chat id gets past line 80, and what follows
  depends on the text alone.\<close>

lemma webhook_reaches_text:
  assumes "select_message upd = Inr msg" and "chat_id_of msg = Inr cid"
    and "dict_get msg ''text'' JNull = Inr text"
  shows "telegram_webhook cfg net py_str (post_request upd) s =
           (let s1 = logger INFO ''Received update: %s'' s
            in if \<not> truthy text then reply_and_ack cfg net cid plain_text_notice s1
               else (case str_strip text of
                       Inl e \<Rightarrow> (Inl e, s1)
                     | Inr text' \<Rightarrow>
                         if startswith text' ''/start''
                         then reply_and_ack cfg net cid greeting s1
                         else add_task cfg net py_str cid text' s1))"
proof -
  from assms(2) have m: "truthy msg"
    by (auto simp: chat_id_of_Inr)
  with assms(1) have u: "truthy upd"
    by (rule select_message_truthy)
  show ?thesis
    using assms m u
    by (simp add: telegram_webhook_def post_request_def get_json_def Let_def)
qed

lemma webhook_message_text:
  assumes "select_message upd = Inr (JObject m)"
    and "map_of m ''chat'' = Some (JObject c)" and "map_of c ''id'' = Some cid"
  shows "telegram_webhook cfg net py_str (post_request upd) s =
           (let s1 = logger INFO ''Received update: %s'' s
            in case map_of m ''text'' of
                 None \<Rightarrow> reply_and_ack cfg net cid plain_text_notice s1
               | Some text \<Rightarrow>
                   if \<not> truthy text then reply_and_ack cfg net cid plain_text_notice s1
                   else (case str_strip text of
                           Inl e \<Rightarrow> (Inl e, s1)
                         | Inr text' \<Rightarrow>
                             if startswith text' ''/start''
                             then reply_and_ack cfg net cid greeting s1
                             else add_task cfg net py_str cid text' s1))"
  using webhook_reaches_text [OF assms(1) chat_id_of_object [OF assms(2,3)], of _ cfg net py_str s]
  by (simp add: Let_def split: option.splits)

lemma select_message_update [simp]:
  "select_message (message_update kvs) = Inr (JObject (message_fields kvs))"
  by (simp add: select_message_def message_update_def message_fields_def)

lemma message_fields_chat [simp]:
  "map_of (message_fields kvs) ''chat'' = Some (JObject [(''id'', JInt 42)])"
  by (simp add: message_fields_def)

lemma message_fields_text [simp]:
  "map_of (message_fields kvs) ''text'' = map_of kvs ''text''"
  by (simp add: message_fields_def)

lemma select_chat_update [simp]:
  "select_message (chat_update cid kvs) = Inr (JObject (chat_fields cid kvs))"
  by (simp add: select_message_def chat_update_def chat_fields_def)

lemma chat_fields_chat [simp]:
  "map_of (chat_fields cid kvs) ''chat'' = Some (JObject [(''id'', cid), (''type'', JString ''private'')])"
  by (simp add: chat_fields_def)

lemma chat_fields_text [simp]:
  "map_of (chat_fields cid kvs) ''text'' = map_of kvs ''text''"
  by (simp add: chat_fields_def)

text \<open>The handler on an update of the examples, reduced to the branch its text selects.\<close>

lemma webhook_chat_update:
  "telegram_webhook cfg net py_str (post_request (chat_update cid kvs)) s =
     (let s1 = logger INFO ''Received update: %s'' s
      in case map_of kvs ''text'' of
           None \<Rightarrow> reply_and_ack cfg net cid plain_text_notice s1
         | Some text \<Rightarrow>
             if \<not> truthy text then reply_and_ack cfg net cid plain_text_notice s1
             else (case str_strip text of
                     Inl e \<Rightarrow> (Inl e, s1)
                   | Inr text' \<Rightarrow>
                       if startswith text' ''/start''
                       then reply_and_ack cfg net cid greeting s1
                       else add_task cfg net py_str cid text' s1))"
  using webhook_message_text [of "chat_update cid kvs" "chat_fields cid kvs"
          "[(''id'', cid), (''type'', JString ''private'')]" cid cfg net py_str s]
  by simp

lemma strip_call_mom: "strip ''  call mom '' = ''call mom''"
  by (simp add: strip_def is_space_def)


section \<open>Updates without a message\<close>

text \<open>
  C1, as the handler has it. A POST whose body parses to a non-empty object with neither a
  \<open>message\<close> nor an \<open>edited_message\<close> field is acknowledged with status 200 and
  \<open>{"ok": true}\<close>, and no call goes out to either service. The 400 reply
  \<open>{"ok": false, "description": "No update payload"}\<close> is returned exactly when the body
  did not parse or parsed to a value Python counts as false (\<open>null\<close>, \<open>false\<close>, zero,
  the empty string, the empty array, the empty object), and then also without any
  outbound call.
\<close>

theorem webhook_ignores_non_message_updates:
  assumes "request_method req = POST"
  shows "(parsed_body req = Some (JObject u) \<and> u \<noteq> []
            \<and> map_of u ''message'' = None \<and> map_of u ''edited_message'' = None \<longrightarrow>
          fst (telegram_webhook cfg net py_str req s0) = Inr ok_reply
          \<and> calls (snd (telegram_webhook cfg net py_str req s0)) = [])
     \<and> (fst (telegram_webhook cfg net py_str req s0) = Inr no_payload_reply \<longleftrightarrow>
          (parsed_body req = None \<or> parsed_body req = Some JNull
           \<or> parsed_body req = Some (JBool False) \<or> parsed_body req = Some (JInt 0)
           \<or> (\<exists>e. parsed_body req = Some (JFloat (Finite 0 e)))
           \<or> parsed_body req = Some (JString []) \<or> parsed_body req = Some (JArray [])
           \<or> parsed_body req = Some (JObject [])))
     \<and> (fst (telegram_webhook cfg net py_str req s0) = Inr no_payload_reply \<longrightarrow>
          calls (snd (telegram_webhook cfg net py_str req s0)) = [])"
proof -
  let ?W = "telegram_webhook cfg net py_str req s0"
  have ignored: "fst ?W = Inr ok_reply \<and> calls (snd ?W) = []"
    if "parsed_body req = Some (JObject u) \<and> u \<noteq> []
          \<and> map_of u ''message'' = None \<and> map_of u ''edited_message'' = None"
  proof -
    from that assms have "?W = (Inr ok_reply, logger INFO ''Received update: %s'' s0)"
      by (simp add: telegram_webhook_def get_json_def select_message_def Let_def)
    then show ?thesis by simp
  qed
  have falsy: "\<not> truthy (get_json req) \<longleftrightarrow>
        (parsed_body req = None \<or> parsed_body req = Some JNull
           \<or> parsed_body req = Some (JBool False) \<or> parsed_body req = Some (JInt 0)
           \<or> (\<exists>e. parsed_body req = Some (JFloat (Finite 0 e)))
           \<or> parsed_body req = Some (JString []) \<or> parsed_body req = Some (JArray [])
           \<or> parsed_body req = Some (JObject []))"
    by (cases "parsed_body req") (simp_all add: get_json_def falsy_values)
  have neq: "no_payload_reply \<noteq> ok_reply"
    "no_payload_reply \<noteq> TextReply ''Telegram webhook endpoint is live'' 200"
    by (simp_all add: no_payload_reply_def ok_reply_def)
  have rejected: "fst ?W = Inr no_payload_reply \<longleftrightarrow> \<not> truthy (get_json req)"
  proof
    assume "fst ?W = Inr no_payload_reply"
    from webhook_Inr_cases [OF this] neq show "\<not> truthy (get_json req)" by auto
  next
    assume "\<not> truthy (get_json req)"
    with assms show "fst ?W = Inr no_payload_reply"
      by (simp add: telegram_webhook_def Let_def)
  qed
  have quiet: "calls (snd ?W) = []" if "fst ?W = Inr no_payload_reply"
  proof -
    from that rejected have "\<not> truthy (get_json req)" by simp
    with assms show ?thesis
      by (simp add: telegram_webhook_def Let_def)
  qed
  from ignored rejected falsy quiet show ?thesis by blast
qed

theorem webhook_ignores_non_message_updates_witness:
  "fst (telegram_webhook example_cfg net_echo example_str
          (post_request (JObject [(''update_id'', JInt 1), (''poll'', JObject [(''id'', JString ''p'')])])) s0)
     = Inr (JsonReply [(''ok'', JBool True)] 200)
   \<and> calls (snd (telegram_webhook example_cfg net_echo example_str
          (post_request (JObject [(''update_id'', JInt 1), (''poll'', JObject [(''id'', JString ''p'')])])) s0))
     = []
   \<and> fst (telegram_webhook example_cfg net_echo example_str
          \<lparr>request_method = POST, parsed_body = None\<rparr> s0)
     = Inr (JsonReply [(''ok'', JBool False), (''description'', JString ''No update payload'')] 400)
   \<and> calls (snd (telegram_webhook example_cfg net_echo example_str
          \<lparr>request_method = POST, parsed_body = None\<rparr> s0)) = []"
  using webhook_ignores_non_message_updates
          [of "post_request (JObject [(''update_id'', JInt 1), (''poll'', JObject [(''id'', JString ''p'')])])"
              "[(''update_id'', JInt 1), (''poll'', JObject [(''id'', JString ''p'')])]"
              example_cfg net_echo example_str]
        webhook_ignores_non_message_updates
          [of "\<lparr>request_method = POST, parsed_body = None\<rparr>" "[]" example_cfg net_echo example_str]
  by (simp add: post_request_def ok_reply_def no_payload_reply_def)

text \<open>
  Read as first written, with the 400 reply kept for bodies that did not parse, the
  statement fails on the body \<open>{}\<close>: it parses, it has neither field, and it is
  answered with 400.
\<close>

theorem empty_object_rejected_counterexample:
  "request_method (post_request (JObject [])) = POST
   \<and> parsed_body (post_request (JObject [])) = Some (JObject [])
   \<and> map_of ([] :: (string \<times> json) list) ''message'' = None
   \<and> map_of ([] :: (string \<times> json) list) ''edited_message'' = None
   \<and> fst (telegram_webhook example_cfg net_echo example_str (post_request (JObject [])) s0)
       = Inr (JsonReply [(''ok'', JBool False), (''description'', JString ''No update payload'')] 400)
   \<and> fst (telegram_webhook example_cfg net_echo example_str (post_request (JObject [])) s0)
       \<noteq> Inr (JsonReply [(''ok'', JBool True)] 200)"
  by (simp add: telegram_webhook_def post_request_def get_json_def no_payload_reply_def Let_def)



section \<open>The handler while the chat service answers\<close>

text \<open>
  What the handler does for a message with a chat id that can be encoded, branch by
  branch. The outbound requests are the same in every network; the acknowledgement
  follows whenever the chat service answers its requests.
\<close>

text \<open>No text, or the empty text: the one request is the notice to that chat.\<close>

lemma notice_when_text_missing:
  assumes "select_message upd = Inr (JObject m)"
    and "map_of m ''chat'' = Some (JObject c)" and "map_of c ''id'' = Some cid"
    and "map_of m ''text'' = None \<or> map_of m ''text'' = Some (JString [])"
    and "json_finite cid"
  shows "calls (snd (telegram_webhook cfg net py_str (post_request upd) s0)) =
           [TelegramPost (''https://api.telegram.org/bot'' @ TELEGRAM_BOT_TOKEN cfg @ ''/sendMessage'')
              [(''chat_id'', cid),
               (''text'', JString ''Please send plain text tasks only for now.'')]]
         \<and> (chat_responds net \<longrightarrow>
              fst (telegram_webhook cfg net py_str (post_request upd) s0) =
                Inr (JsonReply [(''ok'', JBool True)] 200))"
  using assms(4,5)
  by (auto simp: webhook_message_text [OF assms(1-3)] reply_and_ack_responds telegram_call_def
        TELEGRAM_API_BASE_def plain_text_notice_def ok_reply_def)

text \<open>The empty text and the missing text are not told apart, in any network.\<close>

lemma empty_text_as_missing:
  assumes "select_message upd = Inr (JObject m)"
    and "map_of m ''chat'' = Some (JObject c)" and "map_of c ''id'' = Some cid"
    and "map_of m ''text'' = Some (JString [])"
    and "select_message upd' = Inr (JObject m')"
    and "map_of m' ''chat'' = Some (JObject c')" and "map_of c' ''id'' = Some cid"
    and "map_of m' ''text'' = None"
  shows "telegram_webhook cfg net py_str (post_request upd) s0 =
           telegram_webhook cfg net py_str (post_request upd') s0"
  using assms(4,8)
  by (simp add: webhook_message_text [OF assms(1-3)] webhook_message_text [OF assms(5-7)])

text \<open>A text that, trimmed, begins with \<open>/start\<close>: the one request is the greeting to that
  chat.\<close>

lemma greeting_on_start:
  assumes "select_message upd = Inr (JObject m)"
    and "map_of m ''chat'' = Some (JObject c)" and "map_of c ''id'' = Some cid"
    and "map_of m ''text'' = Some (JString t)"
    and "startswith (strip t) ''/start''"
    and "json_finite cid"
  shows "calls (snd (telegram_webhook cfg net py_str (post_request upd) s0)) =
           [TelegramPost (''https://api.telegram.org/bot'' @ TELEGRAM_BOT_TOKEN cfg @ ''/sendMessage'')
              [(''chat_id'', cid),
               (''text'', JString ''Hey! Send me any message and I'll add it as a checklist item in Trello.'')]]
         \<and> (chat_responds net \<longrightarrow>
              fst (telegram_webhook cfg net py_str (post_request upd) s0) =
                Inr (JsonReply [(''ok'', JBool True)] 200))"
proof -
  have "t \<noteq> []"
    using assms(5) by (auto simp: strip_def startswith_def)
  with assms(4-6) show ?thesis
    by (simp add: webhook_message_text [OF assms(1-3)] reply_and_ack_responds telegram_call_def
          TELEGRAM_API_BASE_def greeting_def ok_reply_def)
qed

text \<open>Any other text that is not empty: the board request carries the trimmed text as the
  name, and one chat request follows, the confirmation when the board answered with an
  object under a status that is no error.\<close>

lemma task_confirmed:
  assumes "chat_responds net"
    and "select_message upd = Inr (JObject m)"
    and "map_of m ''chat'' = Some (JObject c)" and "map_of c ''id'' = Some cid"
    and "map_of m ''text'' = Some (JString t)"
    and "t \<noteq> []" and "\<not> startswith (strip t) ''/start''"
    and "json_finite cid"
  shows "fst (telegram_webhook cfg net py_str (post_request upd) s0) =
           Inr (JsonReply [(''ok'', JBool True)] 200)
     \<and> (\<exists>txt. calls (snd (telegram_webhook cfg net py_str (post_request upd) s0)) =
               [TrelloPost (''https://api.trello.com/1/checklists/'' @ TRELLO_CHECKLIST_ID cfg @ ''/checkItems'')
                  [(''key'', TRELLO_KEY cfg), (''token'', TRELLO_TOKEN cfg),
                   (''name'', strip t), (''pos'', ''top'')],
                TelegramPost (''https://api.telegram.org/bot'' @ TELEGRAM_BOT_TOKEN cfg @ ''/sendMessage'')
                  [(''chat_id'', cid), (''text'', JString txt)]]
            \<and> (\<forall>r item. net [] (trello_call cfg (strip t)) = Inr r
                   \<and> \<not> (400 \<le> status_code r \<and> status_code r < 600)
                   \<and> json_body r = Some (JObject item) \<longrightarrow>
                 txt = ''Added to Trello checklist: '' @
                   (case map_of item ''name'' of
                      None \<Rightarrow> strip t
                    | Some v \<Rightarrow> format_value py_str v)))"
  using assms(5-7)
    add_task_responds [OF assms(1,8), of cfg py_str "strip t" "logger INFO ''Received update: %s'' s0"]
  by (simp add: webhook_message_text [OF assms(2-4)] trello_call_def telegram_call_def
        TELEGRAM_API_BASE_def TRELLO_API_BASE_def ok_reply_def)

text \<open>The board request raising, or answered with a 4xx or 5xx status: the one chat request
  is the failure notice to that chat.\<close>

lemma board_failure_notice:
  assumes "select_message upd = Inr (JObject m)"
    and "map_of m ''chat'' = Some (JObject c)" and "map_of c ''id'' = Some cid"
    and "map_of m ''text'' = Some (JString t)"
    and "t \<noteq> []" and "\<not> startswith (strip t) ''/start''"
    and "(\<exists>e. net [] (trello_call cfg (strip t)) = Inl e)
         \<or> (\<exists>r. net [] (trello_call cfg (strip t)) = Inr r
                \<and> 400 \<le> status_code r \<and> status_code r < 600)"
    and "json_finite cid"
  shows "calls (snd (telegram_webhook cfg net py_str (post_request upd) s0)) =
           [TrelloPost (''https://api.trello.com/1/checklists/'' @ TRELLO_CHECKLIST_ID cfg @ ''/checkItems'')
              [(''key'', TRELLO_KEY cfg), (''token'', TRELLO_TOKEN cfg),
               (''name'', strip t), (''pos'', ''top'')],
            TelegramPost (''https://api.telegram.org/bot'' @ TELEGRAM_BOT_TOKEN cfg @ ''/sendMessage'')
              [(''chat_id'', cid),
               (''text'', JString ''Oops, I couldn't add that to Trello. Check configuration/logs.'')]]
     \<and> (chat_responds net \<longrightarrow>
          fst (telegram_webhook cfg net py_str (post_request upd) s0) =
            Inr (JsonReply [(''ok'', JBool True)] 200))"
proof -
  let ?s1 = "logger INFO ''Received update: %s'' s0"
  from assms(7) obtain e where
    "fst (add_checkitem_to_trello cfg net (strip t) ?s1) = Inl e"
    by (auto simp: add_checkitem_fst)
  from add_task_stopped [OF this assms(8), of py_str] assms(4-6) show ?thesis
    by (simp add: webhook_message_text [OF assms(1-3)] trello_call_def telegram_call_def
          TELEGRAM_API_BASE_def TRELLO_API_BASE_def failure_notice_def ok_reply_def)
qed


text \<open>The four branches with both services up, and the failure notice with the board
  refusing, for messages from four different chats.\<close>

lemma notice_when_text_missing_example:
  "telegram_webhook example_cfg net_echo example_str
     (post_request (chat_update (JInt 1001) [(''photo'', JArray [JString ''f1''])])) s0
   = (Inr (JsonReply [(''ok'', JBool True)] 200),
      \<lparr>calls = [TelegramPost ''https://api.telegram.org/bot123:abc/sendMessage''
                  [(''chat_id'', JInt 1001),
                   (''text'', JString ''Please send plain text tasks only for now.'')]],
       logs = [(INFO, ''Received update: %s'')]\<rparr>)"
  using notice_when_text_missing [of "chat_update (JInt 1001) [(''photo'', JArray [JString ''f1''])]"
          "chat_fields (JInt 1001) [(''photo'', JArray [JString ''f1''])]"
          "[(''id'', JInt 1001), (''type'', JString ''private'')]" "JInt 1001"
          example_cfg net_echo example_str]
        net_echo_responds
  by (simp add: webhook_chat_update reply_and_ack_def send_telegram_message_def requests_post_def
        serialisable_def raise_for_status_def net_echo_def telegram_call_def plain_text_notice_def
        ok_reply_def logger_def s0_def)

lemma greeting_on_start_example:
  "telegram_webhook example_cfg net_echo example_str
     (post_request (chat_update (JInt 314) [(''text'', JString ''  /start now '')])) s0
   = (Inr (JsonReply [(''ok'', JBool True)] 200),
      \<lparr>calls = [TelegramPost ''https://api.telegram.org/bot123:abc/sendMessage''
                  [(''chat_id'', JInt 314),
                   (''text'', JString ''Hey! Send me any message and I'll add it as a checklist item in Trello.'')]],
       logs = [(INFO, ''Received update: %s'')]\<rparr>)"
  using greeting_on_start [of "chat_update (JInt 314) [(''text'', JString ''  /start now '')]"
          "chat_fields (JInt 314) [(''text'', JString ''  /start now '')]"
          "[(''id'', JInt 314), (''type'', JString ''private'')]" "JInt 314"
          "''  /start now ''" example_cfg net_echo example_str]
        net_echo_responds
  by (simp add: webhook_chat_update strip_start startswith_def reply_and_ack_def
        send_telegram_message_def requests_post_def serialisable_def raise_for_status_def
        net_echo_def telegram_call_def greeting_def ok_reply_def logger_def s0_def)

lemma task_confirmed_example:
  "telegram_webhook example_cfg net_echo example_str
     (post_request (chat_update (JInt 9) [(''text'', JString ''  call mom '')])) s0
   = (Inr (JsonReply [(''ok'', JBool True)] 200),
      \<lparr>calls = [TrelloPost ''https://api.trello.com/1/checklists/c1/checkItems''
                  [(''key'', ''k''), (''token'', ''t''), (''name'', ''call mom''), (''pos'', ''top'')],
                TelegramPost ''https://api.telegram.org/bot123:abc/sendMessage''
                  [(''chat_id'', JInt 9), (''text'', JString ''Added to Trello checklist: call mom'')]],
       logs = [(INFO, ''Received update: %s'')]\<rparr>)"
  using task_confirmed [OF net_echo_responds,
          of "chat_update (JInt 9) [(''text'', JString ''  call mom '')]"
          "chat_fields (JInt 9) [(''text'', JString ''  call mom '')]"
          "[(''id'', JInt 9), (''type'', JString ''private'')]" "JInt 9"
          "''  call mom ''" example_cfg example_str]
  by (simp add: webhook_chat_update strip_call_mom startswith_def add_task_def try_add_def
        add_checkitem_to_trello_def send_telegram_message_def requests_post_def serialisable_def
        raise_for_status_def response_json_def net_echo_def trello_call_def telegram_call_def
        format_value_def TRELLO_API_BASE_def ok_reply_def logger_def s0_def)

lemma board_failure_notice_example:
  "telegram_webhook example_cfg net_board_rejects example_str
     (post_request (chat_update (JInt 12) [(''text'', JString ''  call mom '')])) s0
   = (Inr (JsonReply [(''ok'', JBool True)] 200),
      \<lparr>calls = [TrelloPost ''https://api.trello.com/1/checklists/c1/checkItems''
                  [(''key'', ''k''), (''token'', ''t''), (''name'', ''call mom''), (''pos'', ''top'')],
                TelegramPost ''https://api.telegram.org/bot123:abc/sendMessage''
                  [(''chat_id'', JInt 12),
                   (''text'', JString ''Oops, I couldn't add that to Trello. Check configuration/logs.'')]],
       logs = [(INFO, ''Received update: %s''),
               (ERROR, ''Error from Trello API: %s - response: %s''),
               (ERROR, ''Failed to add checklist item'')]\<rparr>)"
  using board_failure_notice [of "chat_update (JInt 12) [(''text'', JString ''  call mom '')]"
          "chat_fields (JInt 12) [(''text'', JString ''  call mom '')]"
          "[(''id'', JInt 12), (''type'', JString ''private'')]" "JInt 12"
          "''  call mom ''" net_board_rejects example_cfg example_str]
        net_board_rejects_responds
  by (simp add: webhook_chat_update strip_call_mom startswith_def add_task_def try_add_def
        add_checkitem_to_trello_def reply_and_ack_def send_telegram_message_def requests_post_def
        serialisable_def raise_for_status_def net_board_rejects_def trello_call_def
        telegram_call_def TRELLO_API_BASE_def failure_notice_def ok_reply_def logger_def s0_def)


section \<open>Messages without text\<close>

text \<open>
  C7, at the input where it fails. A photo message from chat 1001, with no text, arrives
  while the connection to the chat service fails. The handler makes no board request and
  the one chat request, carrying "Please send plain text tasks only for now." to chat 1001;
  the request raises, nothing catches it, and the handler raises instead of replying
  \<open>{"ok": true}\<close> with status 200.
\<close>

theorem missing_text_chat_down_raises:
  "telegram_webhook example_cfg net_chat_down example_str
     (post_request (chat_update (JInt 1001) [(''photo'', JArray [JString ''f1''])])) s0
   = (Inl ConnectionError,
      \<lparr>calls = [TelegramPost ''https://api.telegram.org/bot123:abc/sendMessage''
                  [(''chat_id'', JInt 1001),
                   (''text'', JString ''Please send plain text tasks only for now.'')]],
       logs = [(INFO, ''Received update: %s'')]\<rparr>)"
  by (simp add: webhook_chat_update reply_and_ack_def send_telegram_message_def requests_post_def
        serialisable_def net_chat_down_def telegram_call_def plain_text_notice_def logger_def
        s0_def)

text \<open>
  C10, at the input where it fails. A message from chat 77 whose text is the empty string
  is handled as one without text, and fails as that one does: while the connection to the
  chat service fails, the one chat request with the notice raises and the handler raises
  instead of replying \<open>{"ok": true}\<close> with status 200.
\<close>

theorem empty_text_chat_down_raises:
  "telegram_webhook example_cfg net_chat_down example_str
     (post_request (chat_update (JInt 77) [(''text'', JString [])])) s0
   = (Inl ConnectionError,
      \<lparr>calls = [TelegramPost ''https://api.telegram.org/bot123:abc/sendMessage''
                  [(''chat_id'', JInt 77),
                   (''text'', JString ''Please send plain text tasks only for now.'')]],
       logs = [(INFO, ''Received update: %s'')]\<rparr>)
   \<and> telegram_webhook example_cfg net_chat_down example_str
        (post_request (chat_update (JInt 77) [(''text'', JString [])])) s0
     = telegram_webhook example_cfg net_chat_down example_str
        (post_request (chat_update (JInt 77) [])) s0"
  by (simp add: webhook_chat_update reply_and_ack_def send_telegram_message_def requests_post_def
        serialisable_def net_chat_down_def telegram_call_def plain_text_notice_def logger_def
        s0_def)


section \<open>The start command\<close>

text \<open>
  C6, at the input where it fails. The text "  /start now " comes from chat 314 while the
  connection to the chat service fails. The handler makes no board request and the one
  chat request, carrying the greeting to chat 314; the request raises, nothing catches
  it, and the handler raises instead of replying \<open>{"ok": true}\<close> with status 200.
\<close>

theorem start_command_chat_down_raises:
  "telegram_webhook example_cfg net_chat_down example_str
     (post_request (chat_update (JInt 314) [(''text'', JString ''  /start now '')])) s0
   = (Inl ConnectionError,
      \<lparr>calls = [TelegramPost ''https://api.telegram.org/bot123:abc/sendMessage''
                  [(''chat_id'', JInt 314),
                   (''text'', JString ''Hey! Send me any message and I'll add it as a checklist item in Trello.'')]],
       logs = [(INFO, ''Received update: %s'')]\<rparr>)"
  by (simp add: webhook_chat_update strip_start startswith_def reply_and_ack_def
        send_telegram_message_def requests_post_def serialisable_def net_chat_down_def
        telegram_call_def greeting_def logger_def s0_def)


section \<open>Tasks\<close>

text \<open>
  C2, at the input where it fails. The text "  call mom " comes from chat 9; the board is up
  and echoes the name, the connection to the chat service fails. The handler makes the
  board request with the trimmed text, then the chat request with the confirmation; that
  one raises inside the \<^verbatim>\<open>try\<close>, is caught as if the board had failed, and a second chat
  request with the failure notice follows, which raises out of the handler. So there are
  two chat requests where the statement has exactly one, and no reply where it has
  \<open>{"ok": true}\<close> with status 200.
\<close>

theorem task_chat_down_raises:
  "telegram_webhook example_cfg net_chat_down example_str
     (post_request (chat_update (JInt 9) [(''text'', JString ''  call mom '')])) s0
   = (Inl ConnectionError,
      \<lparr>calls = [TrelloPost ''https://api.trello.com/1/checklists/c1/checkItems''
                  [(''key'', ''k''), (''token'', ''t''), (''name'', ''call mom''), (''pos'', ''top'')],
                TelegramPost ''https://api.telegram.org/bot123:abc/sendMessage''
                  [(''chat_id'', JInt 9), (''text'', JString ''Added to Trello checklist: call mom'')],
                TelegramPost ''https://api.telegram.org/bot123:abc/sendMessage''
                  [(''chat_id'', JInt 9),
                   (''text'', JString ''Oops, I couldn't add that to Trello. Check configuration/logs.'')]],
       logs = [(INFO, ''Received update: %s''), (ERROR, ''Failed to add checklist item'')]\<rparr>)"
  by (simp add: webhook_chat_update strip_call_mom startswith_def add_task_def try_add_def
        add_checkitem_to_trello_def reply_and_ack_def send_telegram_message_def requests_post_def
        serialisable_def raise_for_status_def response_json_def net_chat_down_def trello_call_def
        telegram_call_def format_value_def TRELLO_API_BASE_def failure_notice_def logger_def
        s0_def)

text \<open>
  C3, at the input where it fails. The text "  call mom " comes from chat 12 with no
  connection at all. The board request raises, the handler catches that and makes the
  one chat request, carrying "Oops, I couldn't add that to Trello. Check
  configuration/logs." to chat 12; that request raises too, outside any \<^verbatim>\<open>try\<close>, and the
  handler raises instead of replying \<open>{"ok": true}\<close> with status 200.
\<close>

theorem board_and_chat_down_raises:
  "telegram_webhook example_cfg net_down example_str
     (post_request (chat_update (JInt 12) [(''text'', JString ''  call mom '')])) s0
   = (Inl ConnectionError,
      \<lparr>calls = [TrelloPost ''https://api.trello.com/1/checklists/c1/checkItems''
                  [(''key'', ''k''), (''token'', ''t''), (''name'', ''call mom''), (''pos'', ''top'')],
                TelegramPost ''https://api.telegram.org/bot123:abc/sendMessage''
                  [(''chat_id'', JInt 12),
                   (''text'', JString ''Oops, I couldn't add that to Trello. Check configuration/logs.'')]],
       logs = [(INFO, ''Received update: %s''), (ERROR, ''Failed to add checklist item'')]\<rparr>)"
  by (simp add: webhook_chat_update strip_call_mom startswith_def add_task_def try_add_def
        add_checkitem_to_trello_def reply_and_ack_def send_telegram_message_def requests_post_def
        serialisable_def net_down_def trello_call_def telegram_call_def TRELLO_API_BASE_def
        failure_notice_def logger_def s0_def)

text \<open>
  C5, at the input where it fails. A message whose text is three spaces passes the test
  for an empty text, is trimmed to the empty string and is handed to the board client:
  the board call carries the name \<open>""\<close>.
\<close>

theorem blank_text_reaches_board:
  "calls (snd (telegram_webhook example_cfg net_echo example_str
        (post_request (message_update [(''text'', JString ''   '')])) s0))
     = [TrelloPost ''https://api.trello.com/1/checklists/c1/checkItems''
          [(''key'', ''k''), (''token'', ''t''), (''name'', []), (''pos'', ''top'')],
        TelegramPost ''https://api.telegram.org/bot123:abc/sendMessage''
          [(''chat_id'', JInt 42), (''text'', JString ''Added to Trello checklist: '')]]"
proof -
  have "telegram_webhook example_cfg net_echo example_str
          (post_request (message_update [(''text'', JString ''   '')])) s0
        = add_task example_cfg net_echo example_str (JInt 42) []
            (logger INFO ''Received update: %s'' s0)"
    by (simp add: webhook_message_text [of _ "message_fields [(''text'', JString ''   '')]"
          "[(''id'', JInt 42)]" "JInt 42"] strip_blank startswith_def)
  then show ?thesis
    by (simp add: add_task_def try_add_def add_checkitem_to_trello_def send_telegram_message_def
          requests_post_def serialisable_def raise_for_status_def response_json_def net_echo_def
          trello_call_def
          telegram_call_def format_value_def TRELLO_API_BASE_def logger_def s0_def)
qed



section \<open>The chat client\<close>

text \<open>
  What the client does with each outcome of its request. A chat id that cannot be encoded
  makes the request raise before it is sent. Otherwise, when the request comes back with
  a response, of whatever status, \<open>send_telegram_message\<close> raises nothing: a 4xx or 5xx
  status is logged as an error and swallowed. When the request itself raises, the
  exception goes on to the caller and nothing is logged.
\<close>

lemma send_telegram_message_outcome:
  "(json_finite cid \<longrightarrow>
      (\<forall>resp. net (calls s) (telegram_call cfg cid t) = Inr resp \<longrightarrow>
         fst (send_telegram_message cfg net cid t s) = Inr ()
         \<and> logs (snd (send_telegram_message cfg net cid t s)) =
             (if 400 \<le> status_code resp \<and> status_code resp < 600
              then logs s @ [(ERROR, ''Error sending Telegram message: %s - response: %s'')]
              else logs s))
      \<and> (\<forall>e. net (calls s) (telegram_call cfg cid t) = Inl e \<longrightarrow>
         fst (send_telegram_message cfg net cid t s) = Inl e
         \<and> logs (snd (send_telegram_message cfg net cid t s)) = logs s))
   \<and> (\<not> json_finite cid \<longrightarrow>
        send_telegram_message cfg net cid t s = (Inl InvalidJSONError, s))"
  by (simp add: send_telegram_message_def requests_post_def raise_for_status_def)

lemma send_telegram_message_forbidden:
  "fst (send_telegram_message example_cfg net_chat_forbidden (JInt 42) ''hello'' s0) = Inr ()
   \<and> logs (snd (send_telegram_message example_cfg net_chat_forbidden (JInt 42) ''hello'' s0))
       = [(ERROR, ''Error sending Telegram message: %s - response: %s'')]"
  using send_telegram_message_outcome [of "JInt 42" net_chat_forbidden s0 example_cfg "''hello''"]
  by (simp add: net_chat_forbidden_def telegram_call_def s0_def)

text \<open>
  C4, at the input where it fails. With the connection down the request of the client
  raises, and the client lets the exception through, unlogged: it reaches the caller, and
  through the handler that called the client for a \<open>/start\<close> message it takes the place
  of the webhook response.
\<close>

theorem send_raises_on_network_error:
  "send_telegram_message example_cfg net_down (JInt 42) ''hello'' s0
     = (Inl ConnectionError,
        \<lparr>calls = [TelegramPost ''https://api.telegram.org/bot123:abc/sendMessage''
                    [(''chat_id'', JInt 42), (''text'', JString ''hello'')]],
         logs = []\<rparr>)
   \<and> fst (telegram_webhook example_cfg net_down example_str
            (post_request (message_update [(''text'', JString ''/start'')])) s0)
       = Inl ConnectionError"
proof -
  have "strip ''/start'' = ''/start''"
    by (simp add: strip_def is_space_def)
  then have "telegram_webhook example_cfg net_down example_str
          (post_request (message_update [(''text'', JString ''/start'')])) s0
        = reply_and_ack example_cfg net_down (JInt 42) greeting
            (logger INFO ''Received update: %s'' s0)"
    by (simp add: webhook_message_text [of _ "message_fields [(''text'', JString ''/start'')]"
          "[(''id'', JInt 42)]" "JInt 42"] startswith_def)
  then show ?thesis
    by (simp add: reply_and_ack_def send_telegram_message_def requests_post_def
          serialisable_def net_down_def telegram_call_def s0_def)
qed


section \<open>Messages without a chat id\<close>

text \<open>
  C9, as the handler has it. Let the handler select its message, \<open>message\<close> if that is
  truthy and \<open>edited_message\<close> otherwise. When the selected message is truthy, so in
  particular not the empty object, and is not an object with a \<open>chat\<close> object that has an
  \<open>id\<close>, the handler raises instead of acknowledging, before any outbound request:
  KeyError where the key is missing from an object, TypeError where the value is no
  object. When the update is truthy and the selected message is not, the handler
  acknowledges with \<open>{"ok": true}\<close> and status 200, with no outbound request.
\<close>

theorem missing_chat_id_raises:
  assumes "select_message upd = Inr msg"
  shows "(truthy msg
          \<and> \<not> (\<exists>m c cid. msg = JObject m \<and> map_of m ''chat'' = Some (JObject c)
                   \<and> map_of c ''id'' = Some cid) \<longrightarrow>
          fst (telegram_webhook cfg net py_str (post_request upd) s0) =
            Inl (case msg of
                   JObject m \<Rightarrow>
                     (case map_of m ''chat'' of
                        None \<Rightarrow> KeyError
                      | Some chat \<Rightarrow> (case chat of JObject c \<Rightarrow> KeyError | _ \<Rightarrow> TypeError))
                 | _ \<Rightarrow> TypeError)
          \<and> calls (snd (telegram_webhook cfg net py_str (post_request upd) s0)) = [])
       \<and> (truthy upd \<and> \<not> truthy msg \<longrightarrow>
          fst (telegram_webhook cfg net py_str (post_request upd) s0) =
            Inr (JsonReply [(''ok'', JBool True)] 200)
          \<and> calls (snd (telegram_webhook cfg net py_str (post_request upd) s0)) = [])"
proof (intro conjI impI)
  assume a: "truthy msg
          \<and> \<not> (\<exists>m c cid. msg = JObject m \<and> map_of m ''chat'' = Some (JObject c)
                   \<and> map_of c ''id'' = Some cid)"
  let ?e = "case msg of
              JObject m \<Rightarrow>
                (case map_of m ''chat'' of
                   None \<Rightarrow> KeyError
                 | Some chat \<Rightarrow> (case chat of JObject c \<Rightarrow> KeyError | _ \<Rightarrow> TypeError))
            | _ \<Rightarrow> TypeError"
  have e: "chat_id_of msg = Inl ?e"
  proof (cases msg)
    case (JObject m)
    show ?thesis
    proof (cases "map_of m ''chat''")
      case None
      with JObject show ?thesis by (simp add: chat_id_of_def)
    next
      case (Some chat)
      with JObject a show ?thesis
        by (cases chat) (auto simp: chat_id_of_def split: option.splits)
    qed
  qed (simp_all add: chat_id_of_def)
  have u: "truthy upd"
    using assms a by (auto intro: select_message_truthy)
  have w: "telegram_webhook cfg net py_str (post_request upd) s0 =
          (Inl ?e, logger INFO ''Received update: %s'' s0)"
    using assms a e u
    by (simp add: telegram_webhook_def post_request_def get_json_def Let_def)
  from w show "fst (telegram_webhook cfg net py_str (post_request upd) s0) = Inl ?e"
    by simp
  from w show "calls (snd (telegram_webhook cfg net py_str (post_request upd) s0)) = []"
    by simp
next
  assume b: "truthy upd \<and> \<not> truthy msg"
  with assms have w: "telegram_webhook cfg net py_str (post_request upd) s0 =
          (Inr ok_reply, logger INFO ''Received update: %s'' s0)"
    by (simp add: telegram_webhook_def post_request_def get_json_def Let_def)
  from w show "fst (telegram_webhook cfg net py_str (post_request upd) s0) =
            Inr (JsonReply [(''ok'', JBool True)] 200)"
    by (simp add: ok_reply_def)
  from w show "calls (snd (telegram_webhook cfg net py_str (post_request upd) s0)) = []"
    by simp
qed

theorem missing_chat_id_raises_witness:
  "select_message (JObject [(''message'', JObject [(''text'', JString ''hi'')])])
     = Inr (JObject [(''text'', JString ''hi'')])
   \<and> truthy (JObject [(''text'', JString ''hi'')])
   \<and> fst (telegram_webhook example_cfg net_echo example_str
        (post_request (JObject [(''message'', JObject [(''text'', JString ''hi'')])])) s0)
     = Inl KeyError
   \<and> calls (snd (telegram_webhook example_cfg net_echo example_str
        (post_request (JObject [(''message'', JObject [(''text'', JString ''hi'')])])) s0)) = []
   \<and> fst (telegram_webhook example_cfg net_echo example_str
        (post_request (JObject [(''message'', JObject []),
                                (''edited_message'', JObject [(''text'', JString ''hi'')])])) s0)
     = Inl KeyError
   \<and> fst (telegram_webhook example_cfg net_echo example_str
        (post_request (JObject [(''message'', JObject [(''chat'', JInt 5)])])) s0)
     = Inl TypeError
   \<and> select_message (JObject [(''update_id'', JInt 3), (''message'', JNull)]) = Inr JNull
   \<and> fst (telegram_webhook example_cfg net_echo example_str
        (post_request (JObject [(''update_id'', JInt 3), (''message'', JNull)])) s0)
     = Inr (JsonReply [(''ok'', JBool True)] 200)
   \<and> calls (snd (telegram_webhook example_cfg net_echo example_str
        (post_request (JObject [(''update_id'', JInt 3), (''message'', JNull)])) s0)) = []"
  using missing_chat_id_raises [of "JObject [(''message'', JObject [(''text'', JString ''hi'')])]"
          "JObject [(''text'', JString ''hi'')]" example_cfg net_echo example_str]
        missing_chat_id_raises [of "JObject [(''message'', JObject []),
                                (''edited_message'', JObject [(''text'', JString ''hi'')])]"
          "JObject [(''text'', JString ''hi'')]" example_cfg net_echo example_str]
        missing_chat_id_raises [of "JObject [(''message'', JObject [(''chat'', JInt 5)])]"
          "JObject [(''chat'', JInt 5)]" example_cfg net_echo example_str]
        missing_chat_id_raises [of "JObject [(''update_id'', JInt 3), (''message'', JNull)]"
          JNull example_cfg net_echo example_str]
  by (simp add: select_message_def)

text \<open>
  Read as first written, for every message object without a chat, the statement fails
  on the update \<open>{"message": {}}\<close>: the empty object has no chat, yet it counts as no
  message and the update is acknowledged.
\<close>

theorem empty_message_acknowledged_counterexample:
  "map_of [(''message'', JObject [])] ''message'' = Some (JObject [])
   \<and> map_of ([] :: (string \<times> json) list) ''chat'' = None
   \<and> telegram_webhook example_cfg net_echo example_str
        (post_request (JObject [(''message'', JObject [])])) s0
     = (Inr (JsonReply [(''ok'', JBool True)] 200),
        \<lparr>calls = [], logs = [(INFO, ''Received update: %s'')]\<rparr>)"
  by (simp add: telegram_webhook_def post_request_def get_json_def select_message_def
        ok_reply_def logger_def s0_def Let_def)


end
